theory Spec2Isabelle
  imports Main "HOL-Library.Sublist"
begin

section \<open>Credential lifecycle of the quiz backend (src/index.js)\<close>

text \<open>
  A shallow embedding of the user routes of \<^verbatim>\<open>src/index.js\<close>: the password policy
  \<^verbatim>\<open>validatePassword\<close>, the handlers of \<^verbatim>\<open>/api/users/register\<close>,
  \<^verbatim>\<open>/api/users/login\<close>, \<^verbatim>\<open>PATCH /api/users/:username\<close> and
  \<^verbatim>\<open>DELETE /api/users/:username\<close>, and the two middlewares
  \<^verbatim>\<open>authenticateToken\<close> and \<^verbatim>\<open>checkAdminRole\<close>.

  Conventions of the embedding.
  \<^item> A JavaScript string is a \<^typ>\<open>string\<close>; every \<^typ>\<open>char\<close> stands for one UTF-16 code
    unit below 256 (ASCII and Latin-1), so \<open>length\<close> is JavaScript's \<^verbatim>\<open>.length\<close>.
  \<^item> A request field is a \<^typ>\<open>string option\<close>: \<open>None\<close> is an absent field
    (\<^verbatim>\<open>undefined\<close>). Fields holding other JSON values are outside the embedding.
  \<^item> The libraries \<^verbatim>\<open>bcryptjs\<close> and \<^verbatim>\<open>jsonwebtoken\<close> are parameters of the handlers:
    \<open>compare\<close> is \<^verbatim>\<open>bcrypt.compare\<close>/\<^verbatim>\<open>compareSync\<close>, \<open>hash\<close> is
    \<^verbatim>\<open>bcrypt.hash(\<cdot>, 10)\<close> with the random salt made an explicit argument,
    \<open>jwt_sign\<close> is \<^verbatim>\<open>jwt.sign(\<cdot>, jwtSecret, {expiresIn: '1h'})\<close> and \<open>jwt_verify\<close> is
    \<^verbatim>\<open>jwt.verify(\<cdot>, jwtSecret)\<close> at the moment of the call (\<open>None\<close> is its error).
  \<^item> The users collection is a map from the unique \<^verbatim>\<open>username\<close> to the document;
    a handler takes the collection and returns the response with the new collection.
    Requests are handled one after the other; \<^verbatim>\<open>Date.now()\<close> is the argument \<open>now\<close>,
    in milliseconds. The database never fails, so the \<^verbatim>\<open>catch\<close> branches are not
    reached.
  \<^item> The console output of \<^verbatim>\<open>showErrorsAlternately\<close> does not reach the caller and is
    left out.
\<close>

subsection \<open>JavaScript string operations\<close>

text \<open>A character class \<^verbatim>\<open>[lo-hi]\<close> of a regular expression.\<close>

definition in_range :: "char \<Rightarrow> char \<Rightarrow> char \<Rightarrow> bool" where
  "in_range lo hi c = ((of_char lo :: nat) \<le> of_char c \<and> (of_char c :: nat) \<le> of_char hi)"

text \<open>\<^verbatim>\<open>/[class]/.test(s)\<close>: some code unit of \<open>s\<close> is in the class.\<close>

primrec regex_test :: "(char \<Rightarrow> bool) \<Rightarrow> string \<Rightarrow> bool" where
  "regex_test cls [] = False"
| "regex_test cls (c # cs) = (cls c \<or> regex_test cls cs)"

text \<open>The class \<^verbatim>\<open>[!@#$%^&*(),.?":{}|<>]\<close> of line 94, character by character.\<close>

definition special_characters :: "char list" where
  "special_characters =
     [CHR ''!'', CHR ''@'', CHR ''#'', CHR ''$'', CHR ''%'', CHR ''^'', CHR ''&'', CHR ''*'',
      CHR ''('', CHR '')'', CHR '','', CHR ''.'', CHR ''?'', CHR 0x22, CHR '':'', CHR ''{'',
      CHR ''}'', CHR ''|'', CHR ''<'', CHR ''>'']"

definition special_class :: "char \<Rightarrow> bool" where
  "special_class c = (c \<in> set special_characters)"

text \<open>
  \<^verbatim>\<open>String.prototype.toLowerCase\<close> on code units below 256: \<^verbatim>\<open>A-Z\<close> and the Latin-1
  capitals U+00C0 to U+00DE (the multiplication sign U+00D7 apart) move up by 32, every
  other code unit stays.
\<close>

definition toLowerCase_char :: "char \<Rightarrow> char" where
  "toLowerCase_char c =
     (let n = (of_char c :: nat)
      in if (65 \<le> n \<and> n \<le> 90) \<or> (192 \<le> n \<and> n \<le> 222 \<and> n \<noteq> 215)
         then char_of (n + 32) else c)"

definition toLowerCase :: "string \<Rightarrow> string" where
  "toLowerCase s = map toLowerCase_char s"

text \<open>\<^verbatim>\<open>s.includes(t)\<close>: \<open>t\<close> starts at some position of \<open>s\<close>.\<close>

fun startsWith :: "string \<Rightarrow> string \<Rightarrow> bool" where
  "startsWith s [] = True"
| "startsWith [] (y # ys) = False"
| "startsWith (x # xs) (y # ys) = (x = y \<and> startsWith xs ys)"

fun includes_str :: "string \<Rightarrow> string \<Rightarrow> bool" where
  "includes_str [] t = (t = [])"
| "includes_str (x # xs) t = (startsWith (x # xs) t \<or> includes_str xs t)"

text \<open>\<^verbatim>\<open>arr.some(f)\<close>.\<close>

primrec array_some :: "('a \<Rightarrow> bool) \<Rightarrow> 'a list \<Rightarrow> bool" where
  "array_some f [] = False"
| "array_some f (x # xs) = (f x \<or> array_some f xs)"

text \<open>\<^verbatim>\<open>arr.join(' ')\<close>.\<close>

fun join_space :: "string list \<Rightarrow> string" where
  "join_space [] = []"
| "join_space [x] = x"
| "join_space (x # y # ys) = x @ '' '' @ join_space (y # ys)"

text \<open>\<^verbatim>\<open>s.split(' ')\<close>: the pieces between single spaces; the empty string gives one
  empty piece.\<close>

fun split_space :: "string \<Rightarrow> string list" where
  "split_space [] = [[]]"
| "split_space (c # cs) =
     (if c = CHR '' '' then [] # split_space cs
      else (case split_space cs of [] \<Rightarrow> [[c]] | w # ws \<Rightarrow> (c # w) # ws))"

text \<open>\<^verbatim>\<open>arr[i]\<close>, \<open>None\<close> for \<^verbatim>\<open>undefined\<close>.\<close>

fun array_index :: "'a list \<Rightarrow> nat \<Rightarrow> 'a option" where
  "array_index [] i = None"
| "array_index (x # xs) 0 = Some x"
| "array_index (x # xs) (Suc i) = array_index xs i"

subsection \<open>Password policy (lines 79 to 117)\<close>

definition err_length :: string where
  "err_length = ''Password must be 8-12 characters long.''"

definition err_number :: string where
  "err_number = ''Password must contain at least one number.''"

definition err_uppercase :: string where
  "err_uppercase = ''Password must contain at least one uppercase letter.''"

definition err_lowercase :: string where
  "err_lowercase = ''Password must contain at least one lowercase letter.''"

definition err_special :: string where
  "err_special = ''Password must contain at least one special character.''"

definition err_username :: string where
  "err_username = ''Password must not contain the username.''"

definition err_reuse :: string where
  "err_reuse = ''Password must not have been used before.''"

text \<open>\<^verbatim>\<open>errors.push(msg)\<close> under a condition.\<close>

definition push_if :: "bool \<Rightarrow> string \<Rightarrow> string list \<Rightarrow> string list" where
  "push_if b msg errors = (if b then errors @ [msg] else errors)"

definition validatePassword ::
  "(string \<Rightarrow> string \<Rightarrow> bool) \<Rightarrow> string \<Rightarrow> string \<Rightarrow> string list \<Rightarrow> string list" where
  "validatePassword compareSync pwd uname previousPasswords =
     (let errors = [];
          errors = push_if (length pwd < 8 \<or> length pwd > 12) err_length errors;
          errors = push_if (\<not> regex_test (in_range CHR ''0'' CHR ''9'') pwd) err_number errors;
          errors = push_if (\<not> regex_test (in_range CHR ''A'' CHR ''Z'') pwd) err_uppercase errors;
          errors = push_if (\<not> regex_test (in_range CHR ''a'' CHR ''z'') pwd) err_lowercase errors;
          errors = push_if (\<not> regex_test special_class pwd) err_special errors;
          errors = push_if (includes_str (toLowerCase pwd) (toLowerCase uname)) err_username errors;
          errors = push_if (array_some (\<lambda>hash. compareSync pwd hash) previousPasswords)
                     err_reuse errors
      in errors)"

subsection \<open>The seven rules as the specification words them\<close>

definition rule_length :: "string \<Rightarrow> bool" where
  "rule_length pwd = (length pwd \<in> {8..12})"

definition rule_digit :: "string \<Rightarrow> bool" where
  "rule_digit pwd = (\<exists>c \<in> set pwd. c \<in> set ''0123456789'')"

definition rule_uppercase :: "string \<Rightarrow> bool" where
  "rule_uppercase pwd = (\<exists>c \<in> set pwd. c \<in> set ''ABCDEFGHIJKLMNOPQRSTUVWXYZ'')"

definition rule_lowercase :: "string \<Rightarrow> bool" where
  "rule_lowercase pwd = (\<exists>c \<in> set pwd. c \<in> set ''abcdefghijklmnopqrstuvwxyz'')"

definition rule_special :: "string \<Rightarrow> bool" where
  "rule_special pwd = (\<exists>c \<in> set pwd. c \<in> set special_characters)"

definition rule_identity :: "string \<Rightarrow> string \<Rightarrow> bool" where
  "rule_identity pwd ident = (\<not> sublist (toLowerCase ident) (toLowerCase pwd))"

definition rule_history :: "(string \<Rightarrow> string \<Rightarrow> bool) \<Rightarrow> string \<Rightarrow> string list \<Rightarrow> bool" where
  "rule_history compareSync pwd history = (\<not> (\<exists>h \<in> set history. compareSync pwd h))"

text \<open>The rules in their order, each with its violation description.\<close>

definition rules ::
  "(string \<Rightarrow> string \<Rightarrow> bool) \<Rightarrow> string \<Rightarrow> string \<Rightarrow> string list \<Rightarrow> (bool \<times> string) list" where
  "rules compareSync pwd ident history =
     [(rule_length pwd, err_length), (rule_digit pwd, err_number),
      (rule_uppercase pwd, err_uppercase), (rule_lowercase pwd, err_lowercase),
      (rule_special pwd, err_special), (rule_identity pwd ident, err_username),
      (rule_history compareSync pwd history, err_reuse)]"

definition broken :: "(bool \<times> string) list \<Rightarrow> string list" where
  "broken rs = map snd (filter (\<lambda>r. \<not> fst r) rs)"

subsection \<open>Documents, responses and token claims\<close>

text \<open>A document of the users collection (\<^verbatim>\<open>userSchema\<close>, lines 41 to 47). The field
  \<open>password\<close> holds the hash; a \<^verbatim>\<open>Date\<close> is its time value in milliseconds.\<close>

record user =
  username :: string
  password :: string
  historyPasswords :: "string list"
  failedLoginAttempts :: nat
  lastFailedLogin :: "int option"

type_synonym users = "string \<rightharpoonup> user"

text \<open>A JSON value, as a claim of a token payload can hold one.\<close>

datatype json =
  JNull | JBool bool | JNum int | JStr string | JArr "json list" | JObj "(string \<times> json) list"

type_synonym claims = "string \<rightharpoonup> json"

text \<open>The body of a response: the status text of \<^verbatim>\<open>res.sendStatus\<close>, a plain text, or
  an object with the one key \<^verbatim>\<open>error\<close>, \<^verbatim>\<open>message\<close> or \<^verbatim>\<open>token\<close>.\<close>

datatype body = StatusText | TextBody string | ErrorBody string | MessageBody string | TokenBody string

datatype response = Response (status: nat) (body: body)

text \<open>\<^verbatim>\<open>new Date(d).getTime()\<close>: the time value of a date, 0 for \<^verbatim>\<open>null\<close>.\<close>

definition getTime :: "int option \<Rightarrow> int" where
  "getTime d = (case d of None \<Rightarrow> 0 | Some t \<Rightarrow> t)"

subsection \<open>Registration (lines 120 to 150)\<close>

fun register ::
  "(string \<Rightarrow> string \<Rightarrow> bool) \<Rightarrow> (string \<Rightarrow> string \<Rightarrow> string) \<Rightarrow> string \<Rightarrow> users \<Rightarrow>
   string option \<Rightarrow> string option \<Rightarrow> response \<times> users" where
  "register compare hash salt db (Some uname) (Some pwd) =
     (if uname = [] \<or> pwd = []
      then (Response 400 (ErrorBody ''Username and password are required''), db)
      else (case db uname of
              Some existingUser \<Rightarrow> (Response 400 (ErrorBody ''User already exists''), db)
            | None \<Rightarrow>
                (let passwordErrors = validatePassword compare pwd uname []
                 in if length passwordErrors > 0
                    then (Response 400 (ErrorBody (join_space passwordErrors)), db)
                    else (let hashedPassword = hash salt pwd;
                              newUser = \<lparr>username = uname, password = hashedPassword,
                                         historyPasswords = [], failedLoginAttempts = 0,
                                         lastFailedLogin = None\<rparr>
                          in (Response 201 (TextBody ''User registered successfully''),
                              db(uname \<mapsto> newUser))))))"
| "register compare hash salt db uname_field pwd_field =
     (Response 400 (ErrorBody ''Username and password are required''), db)"

subsection \<open>Login (lines 160 to 211)\<close>

text \<open>The lock check of lines 174 to 187: the 403 response, or the document to go on
  with (reset in memory when the lockout period is over).\<close>

definition lockout_check :: "int \<Rightarrow> user \<Rightarrow> response + user" where
  "lockout_check now user =
     (if failedLoginAttempts user \<ge> 3
      then (let timeSinceLastFailed = now - getTime (lastFailedLogin user);
                lockoutTime = 1 * 60 * 1000
            in if timeSinceLastFailed < lockoutTime
               then Inl (Response 403 (ErrorBody
                      ''Too many failed login attempts. Please try again later in 60 seconds.''))
               else Inr (user\<lparr>failedLoginAttempts := 0, lastFailedLogin := None\<rparr>))
      else Inr user)"

fun login ::
  "(string \<Rightarrow> string \<Rightarrow> bool) \<Rightarrow> (claims \<Rightarrow> string) \<Rightarrow> int \<Rightarrow> users \<Rightarrow>
   string option \<Rightarrow> string option \<Rightarrow> response \<times> users" where
  "login compare jwt_sign now db (Some uname) (Some pwd) =
     (if uname = [] \<or> pwd = []
      then (Response 400 (ErrorBody ''Username and password are required''), db)
      else (case db uname of
              None \<Rightarrow> (Response 401 (ErrorBody ''Invalid credentials''), db)
            | Some user \<Rightarrow>
                if \<not> compare pwd (password user)
                then (Response 401 (ErrorBody ''Invalid credentials''), db)
                else (case lockout_check now user of
                        Inl res \<Rightarrow> (res, db)
                      | Inr user \<Rightarrow>
                          (let isPasswordCorrect = compare pwd (password user)
                           in if \<not> isPasswordCorrect
                              then (let user = user\<lparr>failedLoginAttempts :=
                                                     failedLoginAttempts user + 1,
                                                   lastFailedLogin := Some now\<rparr>
                                    in (Response 401 (ErrorBody ''Invalid credentials''),
                                        db(uname \<mapsto> user)))
                              else (let user = user\<lparr>failedLoginAttempts := 0,
                                                   lastFailedLogin := None\<rparr>
                                    in (Response 200 (TokenBody
                                          (jwt_sign [''username'' \<mapsto> JStr (username user)])),
                                        db(uname \<mapsto> user)))))))"
| "login compare jwt_sign now db uname_field pwd_field =
     (Response 400 (ErrorBody ''Username and password are required''), db)"

subsection \<open>Token check and admin gate (lines 66 to 76 and 269 to 274)\<close>

text \<open>\<^verbatim>\<open>authHeader && authHeader.split(' ')[1]\<close>: \<open>None\<close> is \<^verbatim>\<open>undefined\<close>, and an
  empty header gives the empty header itself.\<close>

definition bearer_token :: "string option \<Rightarrow> string option" where
  "bearer_token authHeader =
     (case authHeader of
        None \<Rightarrow> None
      | Some h \<Rightarrow> if h = [] then Some [] else array_index (split_space h) 1)"

text \<open>The middleware answers itself (\<open>Inl\<close>) or calls \<^verbatim>\<open>next()\<close> with \<^verbatim>\<open>req.user\<close> set
  (\<open>Inr\<close>).\<close>

definition authenticateToken :: "(string \<Rightarrow> claims option) \<Rightarrow> string option \<Rightarrow> response + claims" where
  "authenticateToken jwt_verify authHeader =
     (case bearer_token authHeader of
        None \<Rightarrow> Inl (Response 401 StatusText)
      | Some token \<Rightarrow>
          if token = [] then Inl (Response 401 StatusText)
          else (case jwt_verify token of
                  None \<Rightarrow> Inl (Response 403 StatusText)
                | Some user \<Rightarrow> Inr user))"

definition checkAdminRole :: "claims \<Rightarrow> response + unit" where
  "checkAdminRole user =
     (if user ''role'' \<noteq> Some (JStr ''admin'')
      then Inl (Response 403 (ErrorBody ''Forbidden''))
      else Inr ())"

text \<open>A privileged route, \<^verbatim>\<open>app.METHOD(path, authenticateToken, checkAdminRole, handler)\<close>:
  the four routes of lines 277, 298, 318 and 371 differ in \<open>handler\<close> only.\<close>

definition admin_route ::
  "(string \<Rightarrow> claims option) \<Rightarrow> string option \<Rightarrow> (claims \<Rightarrow> response) \<Rightarrow> response" where
  "admin_route jwt_verify authHeader handler =
     (case authenticateToken jwt_verify authHeader of
        Inl res \<Rightarrow> res
      | Inr user \<Rightarrow>
          (case checkAdminRole user of
             Inl res \<Rightarrow> res
           | Inr _ \<Rightarrow> handler user))"

subsection \<open>Password change and deletion (lines 228 to 267)\<close>

text \<open>The handlers behind \<^verbatim>\<open>authenticateToken\<close>; \<open>uname\<close> is the route parameter.\<close>

definition updateUser ::
  "(string \<Rightarrow> string \<Rightarrow> bool) \<Rightarrow> (string \<Rightarrow> string \<Rightarrow> string) \<Rightarrow> string \<Rightarrow> users \<Rightarrow>
   string \<Rightarrow> string option \<Rightarrow> response \<times> users" where
  "updateUser compare hash salt db uname pwd_field =
     (case db uname of
        None \<Rightarrow> (Response 404 (ErrorBody ''User not found.''), db)
      | Some user \<Rightarrow>
          (case pwd_field of
             None \<Rightarrow> (Response 200 (MessageBody ''User updated successfully''), db)
           | Some pwd \<Rightarrow>
               if pwd = [] then (Response 200 (MessageBody ''User updated successfully''), db)
               else (let passwordErrors = validatePassword compare pwd uname (historyPasswords user)
                     in if length passwordErrors > 0
                        then (Response 400 (ErrorBody (join_space passwordErrors)), db)
                        else (let hashedPassword = hash salt pwd;
                                  user = user\<lparr>historyPasswords :=
                                                historyPasswords user @ [password user]\<rparr>;
                                  user = user\<lparr>password := hashedPassword\<rparr>
                              in (Response 200 (MessageBody ''User updated successfully''),
                                  db(uname \<mapsto> user))))))"

definition deleteUser :: "users \<Rightarrow> string \<Rightarrow> response \<times> users" where
  "deleteUser db uname =
     (case db uname of
        None \<Rightarrow> (Response 404 (ErrorBody ''User not found''), db)
      | Some user \<Rightarrow> (Response 200 (MessageBody ''User deleted successfully''), db(uname := None)))"

text \<open>The same handlers as routes, behind the token check.\<close>

definition updateUser_route ::
  "(string \<Rightarrow> claims option) \<Rightarrow> (string \<Rightarrow> string \<Rightarrow> bool) \<Rightarrow> (string \<Rightarrow> string \<Rightarrow> string) \<Rightarrow>
   string \<Rightarrow> users \<Rightarrow> string option \<Rightarrow> string \<Rightarrow> string option \<Rightarrow> response \<times> users" where
  "updateUser_route jwt_verify compare hash salt db authHeader uname pwd_field =
     (case authenticateToken jwt_verify authHeader of
        Inl res \<Rightarrow> (res, db)
      | Inr user \<Rightarrow> updateUser compare hash salt db uname pwd_field)"

definition deleteUser_route ::
  "(string \<Rightarrow> claims option) \<Rightarrow> users \<Rightarrow> string option \<Rightarrow> string \<Rightarrow> response \<times> users" where
  "deleteUser_route jwt_verify db authHeader uname =
     (case authenticateToken jwt_verify authHeader of
        Inl res \<Rightarrow> (res, db)
      | Inr user \<Rightarrow> deleteUser db uname)"

subsection \<open>The lockout state and the collections the routes can reach\<close>

text \<open>Locked (section 4.4): three or more failures, the last one less than 60 seconds
  before the attempt; the stored date is read as line 175 reads it.\<close>

definition locked :: "int \<Rightarrow> user \<Rightarrow> bool" where
  "locked now user =
     (failedLoginAttempts user \<ge> 3 \<and> now - getTime (lastFailedLogin user) < 60000)"

text \<open>The invariant of section 3 on one document.\<close>

definition counter_invariant :: "user \<Rightarrow> bool" where
  "counter_invariant user = ((failedLoginAttempts user = 0) = (lastFailedLogin user = None))"

text \<open>The collections reached from the empty one by the user routes, each called with
  any header, fields, salt and time.\<close>

inductive reachable ::
  "(string \<Rightarrow> string \<Rightarrow> bool) \<Rightarrow> (string \<Rightarrow> string \<Rightarrow> string) \<Rightarrow> (claims \<Rightarrow> string) \<Rightarrow>
   (string \<Rightarrow> claims option) \<Rightarrow> users \<Rightarrow> bool"
  for compare hash jwt_sign jwt_verify where
  start: "reachable compare hash jwt_sign jwt_verify Map.empty"
| registration:
    "reachable compare hash jwt_sign jwt_verify db \<Longrightarrow>
     reachable compare hash jwt_sign jwt_verify
       (snd (register compare hash salt db uname_field pwd_field))"
| login_attempt:
    "reachable compare hash jwt_sign jwt_verify db \<Longrightarrow>
     reachable compare hash jwt_sign jwt_verify
       (snd (login compare jwt_sign now db uname_field pwd_field))"
| password_change:
    "reachable compare hash jwt_sign jwt_verify db \<Longrightarrow>
     reachable compare hash jwt_sign jwt_verify
       (snd (updateUser_route jwt_verify compare hash salt db authHeader uname pwd_field))"
| deletion:
    "reachable compare hash jwt_sign jwt_verify db \<Longrightarrow>
     reachable compare hash jwt_sign jwt_verify
       (snd (deleteUser_route jwt_verify db authHeader uname))"

subsection \<open>An instance of the library parameters\<close>

text \<open>A stand-in for the libraries, to run the handlers on concrete requests: the
  digest is a two-character salt followed by the plaintext, and a token spells out the
  username it was signed for.\<close>

definition demo_hash :: "string \<Rightarrow> string \<Rightarrow> string" where
  "demo_hash salt pwd = take 2 salt @ pwd"

definition demo_compare :: "string \<Rightarrow> string \<Rightarrow> bool" where
  "demo_compare pwd digest = (drop 2 digest = pwd)"

definition demo_sign :: "claims \<Rightarrow> string" where
  "demo_sign payload =
     (case payload ''username'' of
        Some (JStr u) \<Rightarrow> (if payload ''role'' = None then ''jwt.'' @ u else ''adm.'' @ u)
      | _ \<Rightarrow> ''none'')"

definition demo_verify :: "string \<Rightarrow> claims option" where
  "demo_verify token =
     (if take 4 token = ''jwt.'' then Some [''username'' \<mapsto> JStr (drop 4 token)] else None)"

text \<open>The document of \<^verbatim>\<open>bob\<close>, registered with the password \<^verbatim>\<open>Abc123!x\<close>, at a given
  counter and date of the last failure, and a collection holding it fresh.\<close>

definition demo_user :: "nat \<Rightarrow> int option \<Rightarrow> user" where
  "demo_user n t =
     \<lparr>username = ''bob'', password = demo_hash ''s1'' ''Abc123!x'', historyPasswords = [],
      failedLoginAttempts = n, lastFailedLogin = t\<rparr>"

definition demo_db :: users where
  "demo_db = [''bob'' \<mapsto> demo_user 0 None]"

section \<open>Properties\<close>

subsection \<open>Helper facts on strings\<close>

lemma char_eq_code: "(c = d) = ((of_char c :: nat) = of_char d)"
  by simp

lemma digit_class: "in_range CHR ''0'' CHR ''9'' c = (c \<in> set ''0123456789'')"
proof -
  have "(c \<in> set ''0123456789'') = ((of_char c :: nat) \<in> {48..57})"
    unfolding set_simps insert_iff empty_iff char_eq_code[of c]
    by (simp del: of_char_eq_iff) arith
  then show ?thesis by (simp add: in_range_def)
qed

lemma uppercase_class:
  "in_range CHR ''A'' CHR ''Z'' c = (c \<in> set ''ABCDEFGHIJKLMNOPQRSTUVWXYZ'')"
proof -
  have "(c \<in> set ''ABCDEFGHIJKLMNOPQRSTUVWXYZ'') = ((of_char c :: nat) \<in> {65..90})"
    unfolding set_simps insert_iff empty_iff char_eq_code[of c]
    by (simp del: of_char_eq_iff) arith
  then show ?thesis by (simp add: in_range_def)
qed

lemma lowercase_class:
  "in_range CHR ''a'' CHR ''z'' c = (c \<in> set ''abcdefghijklmnopqrstuvwxyz'')"
proof -
  have "(c \<in> set ''abcdefghijklmnopqrstuvwxyz'') = ((of_char c :: nat) \<in> {97..122})"
    unfolding set_simps insert_iff empty_iff char_eq_code[of c]
    by (simp del: of_char_eq_iff) arith
  then show ?thesis by (simp add: in_range_def)
qed

lemma regex_test_iff: "regex_test cls s = (\<exists>c \<in> set s. cls c)"
  by (induction s) auto

lemma array_some_iff: "array_some f xs = (\<exists>x \<in> set xs. f x)"
  by (induction xs) auto

lemma startsWith_prefix: "startsWith s t = prefix t s"
  by (induction s t rule: startsWith.induct) auto

lemma includes_sublist: "includes_str s t = sublist t s"
proof (induction s)
  case Nil
  then show ?case by simp
next
  case (Cons x xs)
  show ?case
  proof (cases t)
    case Nil
    then show ?thesis by simp
  next
    case (Cons y ys)
    with Cons.IH show ?thesis
      by (simp add: startsWith_prefix sublist_Cons_right)
  qed
qed

subsection \<open>The validator against the rules\<close>

lemma push_if_append: "push_if b m errors = errors @ (if b then [m] else [])"
  by (simp add: push_if_def)

lemma broken_Cons: "broken ((r, m) # rs) = (if r then [] else [m]) @ broken rs"
  by (simp add: broken_def)

lemma broken_Nil: "broken [] = []"
  by (simp add: broken_def)

lemma cond_length: "(length pwd < 8 \<or> length pwd > 12) = (\<not> rule_length pwd)"
  by (auto simp: rule_length_def)

lemma cond_digit: "regex_test (in_range CHR ''0'' CHR ''9'') pwd = rule_digit pwd"
  by (simp add: regex_test_iff rule_digit_def digit_class)

lemma cond_uppercase: "regex_test (in_range CHR ''A'' CHR ''Z'') pwd = rule_uppercase pwd"
  by (simp add: regex_test_iff rule_uppercase_def uppercase_class)

lemma cond_lowercase: "regex_test (in_range CHR ''a'' CHR ''z'') pwd = rule_lowercase pwd"
  by (simp add: regex_test_iff rule_lowercase_def lowercase_class)

lemma cond_special: "regex_test special_class pwd = rule_special pwd"
  by (simp add: regex_test_iff rule_special_def special_class_def)

lemma cond_identity:
  "includes_str (toLowerCase pwd) (toLowerCase ident) = (\<not> rule_identity pwd ident)"
  by (simp add: includes_sublist rule_identity_def)

lemma cond_history:
  "array_some (\<lambda>hash. compareSync pwd hash) history = (\<not> rule_history compareSync pwd history)"
  by (simp add: array_some_iff rule_history_def)

lemmas conds =
  cond_length cond_digit cond_uppercase cond_lowercase cond_special cond_identity cond_history

lemma validatePassword_broken:
  "validatePassword compareSync pwd ident history = broken (rules compareSync pwd ident history)"
  unfolding validatePassword_def Let_def rules_def conds push_if_append broken_Cons broken_Nil
  by simp

lemmas err_defs =
  err_length_def err_number_def err_uppercase_def err_lowercase_def err_special_def
  err_username_def err_reuse_def

lemma char_of_nat_eq: "(char_of (n::nat) = c) = (n mod 256 = of_char c)"
  by (metis char_of_char of_char_of)

lemma char_eq_char_of_nat: "(c = char_of (n::nat)) = (n mod 256 = of_char c)"
  by (metis char_of_char of_char_of)

lemmas eval_defs =
  validatePassword_def Let_def char_of_nat_eq char_eq_char_of_nat push_if_def in_range_def
  special_class_def special_characters_def toLowerCase_def toLowerCase_char_def

lemma validatePassword_empty_iff:
  "(validatePassword c p u h = []) = (rule_length p \<and> rule_digit p \<and> rule_uppercase p \<and> rule_lowercase p \<and> rule_special p \<and> rule_identity p u \<and> rule_history c p h)"
  unfolding validatePassword_broken rules_def broken_Cons broken_Nil by simp

lemma validatePassword_mem:
  "(err_length \<in> set (validatePassword c p u h)) = (\<not> rule_length p)"
  "(err_number \<in> set (validatePassword c p u h)) = (\<not> rule_digit p)"
  "(err_uppercase \<in> set (validatePassword c p u h)) = (\<not> rule_uppercase p)"
  "(err_lowercase \<in> set (validatePassword c p u h)) = (\<not> rule_lowercase p)"
  "(err_special \<in> set (validatePassword c p u h)) = (\<not> rule_special p)"
  "(err_username \<in> set (validatePassword c p u h)) = (\<not> rule_identity p u)"
  "(err_reuse \<in> set (validatePassword c p u h)) = (\<not> rule_history c p h)"
  unfolding validatePassword_broken rules_def broken_Cons broken_Nil 
  by (simp_all add: err_defs)

lemma validatePassword_length:
  "length (validatePassword c p u h) = length (filter Not [rule_length p, rule_digit p, rule_uppercase p, rule_lowercase p, rule_special p, rule_identity p u, rule_history c p h])"
  unfolding validatePassword_broken rules_def broken_Cons broken_Nil 
  by simp

text \<open>
  C4. For every candidate password, identity and history, \<open>validatePassword\<close> returns
  the descriptions of exactly the broken rules, one for each and in the order of the
  rules, whatever the earlier rules gave: the result is empty exactly when the seven
  rules hold together, each description is in the result exactly when its rule is
  broken, and the result is as long as the number of broken rules. \<^verbatim>\<open>"Abc123!x"\<close>
  against the identity \<^verbatim>\<open>"bob"\<close> with an empty history gives the empty list, and
  \<^verbatim>\<open>"abc"\<close> gives the four descriptions for length, digit, uppercase and special
  character.
\<close>

theorem validatePassword_reports_every_broken_rule:
  "validatePassword c p u h = broken (rules c p u h)
   \<and> (validatePassword c p u h = []) =
       (rule_length p \<and> rule_digit p \<and> rule_uppercase p \<and> rule_lowercase p \<and>
        rule_special p \<and> rule_identity p u \<and> rule_history c p h)
   \<and> (err_length \<in> set (validatePassword c p u h)) = (\<not> rule_length p)
   \<and> (err_number \<in> set (validatePassword c p u h)) = (\<not> rule_digit p)
   \<and> (err_uppercase \<in> set (validatePassword c p u h)) = (\<not> rule_uppercase p)
   \<and> (err_lowercase \<in> set (validatePassword c p u h)) = (\<not> rule_lowercase p)
   \<and> (err_special \<in> set (validatePassword c p u h)) = (\<not> rule_special p)
   \<and> (err_username \<in> set (validatePassword c p u h)) = (\<not> rule_identity p u)
   \<and> (err_reuse \<in> set (validatePassword c p u h)) = (\<not> rule_history c p h)
   \<and> length (validatePassword c p u h) =
       length (filter Not [rule_length p, rule_digit p, rule_uppercase p, rule_lowercase p,
                           rule_special p, rule_identity p u, rule_history c p h])
   \<and> validatePassword c ''Abc123!x'' ''bob'' [] = []
   \<and> validatePassword c ''abc'' ''bob'' [] = [err_length, err_number, err_uppercase, err_special]"
proof -
  have ex1: "validatePassword c ''Abc123!x'' ''bob'' [] = []"
    by (simp add: eval_defs)
  have ex2: "validatePassword c ''abc'' ''bob'' [] = [err_length, err_number, err_uppercase, err_special]"
    by (simp add: eval_defs)
  show ?thesis
    using validatePassword_broken [of c p u h] validatePassword_empty_iff [of c p u h]
      validatePassword_mem [of c p u h] validatePassword_length [of c p u h] ex1 ex2
    by blast
qed

text \<open>The theorem at a password that breaks six rules at once, against a history that
  holds it.\<close>

theorem validatePassword_reports_every_broken_rule_witness:
  "validatePassword demo_compare ''bobby'' ''Bob'' [''s1bobby'', ''s2Abc123!x''] =
     [err_length, err_number, err_uppercase, err_special, err_username, err_reuse]
   \<and> \<not> rule_length ''bobby'' \<and> \<not> rule_digit ''bobby'' \<and> \<not> rule_uppercase ''bobby''
   \<and> rule_lowercase ''bobby'' \<and> \<not> rule_special ''bobby'' \<and> \<not> rule_identity ''bobby'' ''Bob''
   \<and> \<not> rule_history demo_compare ''bobby'' [''s1bobby'', ''s2Abc123!x'']"
proof -
  have v: "validatePassword demo_compare ''bobby'' ''Bob'' [''s1bobby'', ''s2Abc123!x''] =
     [err_length, err_number, err_uppercase, err_special, err_username, err_reuse]"
    by (simp add: eval_defs demo_compare_def)
  show ?thesis
    using validatePassword_reports_every_broken_rule
      [of demo_compare "''bobby''" "''Bob''" "[''s1bobby'', ''s2Abc123!x'']"]
    unfolding v by (simp add: err_defs)
qed

text \<open>
  C7. A candidate password that the hash comparison matches against at least one hash of
  the supplied history gets the reuse violation, whatever the other rules say.
\<close>

theorem validatePassword_rejects_reuse:
  "\<exists>h \<in> set history. compareSync pwd h \<Longrightarrow>
   err_reuse \<in> set (validatePassword compareSync pwd ident history)"
  using validatePassword_mem(7) [of compareSync pwd ident history]
  by (simp add: rule_history_def)

text \<open>A reused password that satisfies every other rule: the reuse violation is the
  only one, and without the history the password passes.\<close>

theorem validatePassword_rejects_reuse_witness:
  "(\<exists>h \<in> set [''s1Xyz789?q'', ''s2Abc123!x'']. demo_compare ''Abc123!x'' h)
   \<and> err_reuse \<in> set (validatePassword demo_compare ''Abc123!x'' ''bob'' [''s1Xyz789?q'', ''s2Abc123!x''])
   \<and> validatePassword demo_compare ''Abc123!x'' ''bob'' [''s1Xyz789?q'', ''s2Abc123!x''] = [err_reuse]
   \<and> validatePassword demo_compare ''Abc123!x'' ''bob'' [] = []"
proof -
  have h: "\<exists>h \<in> set [''s1Xyz789?q'', ''s2Abc123!x'']. demo_compare ''Abc123!x'' h"
    by (simp add: demo_compare_def)
  have v: "validatePassword demo_compare ''Abc123!x'' ''bob'' [''s1Xyz789?q'', ''s2Abc123!x''] = [err_reuse]"
    by (simp add: eval_defs demo_compare_def)
  have e: "validatePassword demo_compare ''Abc123!x'' ''bob'' [] = []"
    by (simp add: eval_defs)
  from validatePassword_rejects_reuse
         [of "[''s1Xyz789?q'', ''s2Abc123!x'']" demo_compare "''Abc123!x''" "''bob''"] h v e
  show ?thesis by simp
qed

subsection \<open>Login: what a request does to the response and the collection\<close>

text \<open>Line 169 answers a wrong password before the lock check and before any counter
  is touched: the response is 401 and the collection stays as it was.\<close>

lemma login_wrong_password:
  assumes "uname \<noteq> []" and "pwd \<noteq> []" and "db uname = Some user"
    and "\<not> compare pwd (password user)"
  shows "login compare jwt_sign now db (Some uname) (Some pwd) =
           (Response 401 (ErrorBody ''Invalid credentials''), db)"
  using assms by simp

lemma lockout_check_open:
  "\<not> locked now user \<Longrightarrow>
   lockout_check now user =
     Inr (if failedLoginAttempts user \<ge> 3
          then user\<lparr>failedLoginAttempts := 0, lastFailedLogin := None\<rparr> else user)"
  by (auto simp: lockout_check_def locked_def Let_def)

lemma lockout_check_locked:
  "locked now user \<Longrightarrow>
   lockout_check now user =
     Inl (Response 403 (ErrorBody
       ''Too many failed login attempts. Please try again later in 60 seconds.''))"
  by (auto simp: lockout_check_def locked_def Let_def)

text \<open>A locked account: the lock check answers 403 only when the password is right.\<close>

lemma login_locked_response:
  assumes "uname \<noteq> []" and "pwd \<noteq> []" and "db uname = Some user" and "locked now user"
  shows "login compare jwt_sign now db (Some uname) (Some pwd) =
           (if compare pwd (password user)
            then (Response 403 (ErrorBody
                   ''Too many failed login attempts. Please try again later in 60 seconds.''), db)
            else (Response 401 (ErrorBody ''Invalid credentials''), db))"
  using assms by (simp add: lockout_check_locked)

text \<open>With the same comparison made at lines 169 and 190, the branch of lines 192 to 199
  is never taken: a login leaves the collection alone or stores a reset document.\<close>

lemma login_db_cases:
  "snd (login compare jwt_sign now db uname_field pwd_field) = db \<or>
   (\<exists>uname user. db uname = Some user \<and>
      snd (login compare jwt_sign now db uname_field pwd_field) =
        db(uname \<mapsto> user\<lparr>failedLoginAttempts := 0, lastFailedLogin := None\<rparr>))"
proof (cases uname_field; cases pwd_field)
  fix uname pwd
  assume f: "uname_field = Some uname" "pwd_field = Some pwd"
  show ?thesis
  proof (cases "db uname")
    case None
    with f show ?thesis by simp
  next
    case (Some user)
    show ?thesis
    proof (cases "lockout_check now user")
      case (Inl res)
      with f Some show ?thesis by simp
    next
      case (Inr user')
      then have "user'\<lparr>failedLoginAttempts := 0, lastFailedLogin := None\<rparr> =
                 user\<lparr>failedLoginAttempts := 0, lastFailedLogin := None\<rparr>"
        and "password user' = password user"
        by (auto simp: lockout_check_def Let_def split: if_splits)
      with f Some Inr show ?thesis by (auto simp: Let_def)
    qed
  qed
qed simp_all

lemma login_token_payload:
  assumes "fst (login compare jwt_sign now db uname_field pwd_field) = Response st (TokenBody token)"
  shows "\<exists>uname user. uname_field = Some uname \<and> db uname = Some user \<and>
           token = jwt_sign [''username'' \<mapsto> JStr (username user)]"
proof (cases uname_field; cases pwd_field)
  fix uname pwd
  assume f: "uname_field = Some uname" "pwd_field = Some pwd"
  show ?thesis
  proof (cases "db uname")
    case None
    with f assms show ?thesis by (simp split: if_splits)
  next
    case (Some user)
    show ?thesis
    proof (cases "lockout_check now user")
      case (Inl res)
      with f Some assms show ?thesis
        by (auto simp: lockout_check_def Let_def split: if_splits)
    next
      case (Inr user')
      then have "username user' = username user" "password user' = password user"
        by (auto simp: lockout_check_def Let_def split: if_splits)
      with f Some Inr assms show ?thesis by (auto simp: Let_def split: if_splits)
    qed
  qed
qed (use assms in simp_all)

text \<open>
  C1. The claim: a login for an account with three or more failures, arriving within 60
  seconds of the last one, is answered 403 whether the password is right or wrong. On
  the code the right password is answered 403, the wrong one 401: line 169 returns
  before the lock check of lines 174 to 187. Here \<^verbatim>\<open>bob\<close> has 3 failures, the last at
  1000 ms, and the attempts arrive at 30000 ms.
\<close>

theorem login_locked_wrong_password_is_unauthorized:
  "locked 30000 (demo_user 3 (Some 1000))
   \<and> fst (login demo_compare demo_sign 30000 [''bob'' \<mapsto> demo_user 3 (Some 1000)]
        (Some ''bob'') (Some ''Abc123!x'')) =
       Response 403 (ErrorBody
         ''Too many failed login attempts. Please try again later in 60 seconds.'')
   \<and> fst (login demo_compare demo_sign 30000 [''bob'' \<mapsto> demo_user 3 (Some 1000)]
        (Some ''bob'') (Some ''Wrong123!'')) =
       Response 401 (ErrorBody ''Invalid credentials'')"
  by (simp add: locked_def getTime_def lockout_check_def demo_user_def demo_compare_def
      demo_hash_def)

text \<open>
  C2. The claim: a login with an existing identity and a password that fails the hash
  comparison adds 1 to the counter, stores the time of the failure and answers 401. On
  the code the answer is 401 and the document is not touched: the counter of \<^verbatim>\<open>bob\<close>
  stays 0 and the date stays null.
\<close>

theorem login_wrong_password_leaves_counter:
  "login demo_compare demo_sign 5000 [''bob'' \<mapsto> demo_user 0 None]
     (Some ''bob'') (Some ''Wrong123!'') =
     (Response 401 (ErrorBody ''Invalid credentials''), [''bob'' \<mapsto> demo_user 0 None])
   \<and> failedLoginAttempts (demo_user 0 None) = 0
   \<and> lastFailedLogin (demo_user 0 None) = None"
  by (simp add: demo_user_def demo_compare_def demo_hash_def)

text \<open>
  C3. The claim: a login for an account with three or more failures, the last one 60
  seconds or more ago, resets counter and date before the password is compared. On the
  code the comparison of line 169 comes first, and with a wrong password nothing is
  reset: \<^verbatim>\<open>bob\<close>, with 3 failures and the last at 1000 ms, keeps both after an attempt at
  61000 ms.
\<close>

theorem login_expired_lockout_wrong_password_no_reset:
  "failedLoginAttempts (demo_user 3 (Some 1000)) \<ge> 3
   \<and> 61000 - getTime (lastFailedLogin (demo_user 3 (Some 1000))) \<ge> 60000
   \<and> login demo_compare demo_sign 61000 [''bob'' \<mapsto> demo_user 3 (Some 1000)]
        (Some ''bob'') (Some ''Wrong123!'') =
       (Response 401 (ErrorBody ''Invalid credentials''), [''bob'' \<mapsto> demo_user 3 (Some 1000)])
   \<and> failedLoginAttempts (demo_user 3 (Some 1000)) = 3
   \<and> lastFailedLogin (demo_user 3 (Some 1000)) = Some 1000"
  by (simp add: getTime_def demo_user_def demo_compare_def demo_hash_def)

text \<open>
  C6. A successful login (the request carries both fields, the identity exists, the
  account is not locked and the password verifies) stores the document with the counter
  at 0 and the date at null and answers with the token signed for the username.
\<close>

theorem login_success_resets_counter:
  assumes "uname \<noteq> []" and "pwd \<noteq> []"
    and "db uname = Some user"
    and "\<not> locked now user"
    and "compare pwd (password user)"
  shows "login compare jwt_sign now db (Some uname) (Some pwd) =
           (Response 200 (TokenBody (jwt_sign [''username'' \<mapsto> JStr (username user)])),
            db(uname \<mapsto> user\<lparr>failedLoginAttempts := 0, lastFailedLogin := None\<rparr>))"
  using assms by (simp add: lockout_check_open Let_def)

text \<open>The theorem for \<^verbatim>\<open>bob\<close> with 3 failures, the last at 1000 ms, and the right password
  at 61000 ms.\<close>

theorem login_success_resets_counter_witness:
  "''bob'' \<noteq> [] \<and> ''Abc123!x'' \<noteq> []
   \<and> [''bob'' \<mapsto> demo_user 3 (Some 1000)] ''bob'' = Some (demo_user 3 (Some 1000))
   \<and> \<not> locked 61000 (demo_user 3 (Some 1000))
   \<and> demo_compare ''Abc123!x'' (password (demo_user 3 (Some 1000)))
   \<and> login demo_compare demo_sign 61000 [''bob'' \<mapsto> demo_user 3 (Some 1000)]
        (Some ''bob'') (Some ''Abc123!x'') =
       (Response 200 (TokenBody ''jwt.bob''), [''bob'' \<mapsto> demo_user 0 None])"
proof -
  have a: "''bob'' \<noteq> []" "''Abc123!x'' \<noteq> []" by simp_all
  have b: "[''bob'' \<mapsto> demo_user 3 (Some 1000)] ''bob'' = Some (demo_user 3 (Some 1000))"
    by simp
  have c: "\<not> locked 61000 (demo_user 3 (Some 1000))"
    by (simp add: locked_def demo_user_def getTime_def)
  have d: "demo_compare ''Abc123!x'' (password (demo_user 3 (Some 1000)))"
    by (simp add: demo_compare_def demo_user_def demo_hash_def)
  from login_success_resets_counter
         [where uname = "''bob''" and pwd = "''Abc123!x''" and user = "demo_user 3 (Some 1000)"
            and db = "[''bob'' \<mapsto> demo_user 3 (Some 1000)]" and now = 61000
            and compare = demo_compare and jwt_sign = demo_sign, OF a b c d]
       a b c d
  show ?thesis by (simp add: demo_sign_def demo_user_def)
qed

subsection \<open>The counter and the date of the last failure\<close>

lemma login_preserves:
  assumes "\<And>n u. db n = Some u \<Longrightarrow> counter_invariant u"
    and "snd (login compare jwt_sign now db uname_field pwd_field) n = Some u"
  shows "counter_invariant u"
  using login_db_cases [of compare jwt_sign now db uname_field pwd_field] assms
  by (auto simp: counter_invariant_def split: if_splits)

lemma register_preserves:
  assumes "\<And>n u. db n = Some u \<Longrightarrow> counter_invariant u"
    and "snd (register compare hash salt db uname_field pwd_field) n = Some u"
  shows "counter_invariant u"
proof (cases uname_field; cases pwd_field)
  fix uname pwd
  assume f: "uname_field = Some uname" "pwd_field = Some pwd"
  with assms show ?thesis
    by (auto simp: counter_invariant_def Let_def split: if_splits option.splits)
qed (use assms in auto)

lemma updateUser_preserves:
  assumes "\<And>n u. db n = Some u \<Longrightarrow> counter_invariant u"
    and "snd (updateUser compare hash salt db uname pwd_field) n = Some u"
  shows "counter_invariant u"
  using assms
  by (auto simp: updateUser_def counter_invariant_def Let_def split: if_splits option.splits)

lemma updateUser_route_preserves:
  assumes "\<And>n u. db n = Some u \<Longrightarrow> counter_invariant u"
    and "snd (updateUser_route jwt_verify compare hash salt db authHeader uname pwd_field) n =
           Some u"
  shows "counter_invariant u"
proof (cases "authenticateToken jwt_verify authHeader")
  case (Inl res)
  with assms show ?thesis by (simp add: updateUser_route_def)
next
  case (Inr c)
  with assms(2) have "snd (updateUser compare hash salt db uname pwd_field) n = Some u"
    by (simp add: updateUser_route_def)
  with assms(1) show ?thesis by (rule updateUser_preserves)
qed

lemma deleteUser_route_preserves:
  assumes "\<And>n u. db n = Some u \<Longrightarrow> counter_invariant u"
    and "snd (deleteUser_route jwt_verify db authHeader uname) n = Some u"
  shows "counter_invariant u"
  using assms
  by (auto simp: deleteUser_route_def deleteUser_def split: sum.splits option.splits if_splits)

lemma demo_bearer: "bearer_token (Some ''Bearer jwt.bob'') = Some ''jwt.bob''"
  by (simp add: bearer_token_def)

lemma demo_authenticate:
  "authenticateToken demo_verify (Some ''Bearer jwt.bob'') = Inr [''username'' \<mapsto> JStr ''bob'']"
  by (simp add: authenticateToken_def demo_bearer demo_verify_def)

lemma demo_login:
  "login demo_compare demo_sign 5000 demo_db (Some ''bob'') (Some ''Abc123!x'') =
     (Response 200 (TokenBody ''jwt.bob''), demo_db)"
  by (simp add: demo_db_def demo_user_def demo_compare_def demo_hash_def demo_sign_def
      lockout_check_def)

text \<open>
  C5. In every collection reached from the empty one by registrations, logins (right or
  wrong password, locked or after the lockout period), password changes and deletions,
  every document has its counter at 0 exactly when its date of the last failure is null.
\<close>

theorem reachable_counter_invariant:
  assumes "reachable compare hash jwt_sign jwt_verify db" and "db uname = Some user"
  shows "(failedLoginAttempts user = 0) = (lastFailedLogin user = None)"
proof -
  from assms(1) have "\<forall>n u. db n = Some u \<longrightarrow> counter_invariant u"
  proof (induction rule: reachable.induct)
    case start
    show ?case by simp
  next
    case (registration db salt uname_field pwd_field)
    then show ?case by (blast intro: register_preserves)
  next
    case (login_attempt db now uname_field pwd_field)
    then show ?case by (blast intro: login_preserves)
  next
    case (password_change db salt authHeader uname pwd_field)
    then show ?case by (blast intro: updateUser_route_preserves)
  next
    case (deletion db authHeader uname)
    then show ?case by (blast intro: deleteUser_route_preserves)
  qed
  with assms(2) show ?thesis by (simp add: counter_invariant_def)
qed

text \<open>The theorem for the document of \<^verbatim>\<open>bob\<close> after his registration and a login.\<close>

theorem reachable_counter_invariant_witness:
  "reachable demo_compare demo_hash demo_sign demo_verify
     (snd (login demo_compare demo_sign 5000
        (snd (register demo_compare demo_hash ''s1'' Map.empty (Some ''bob'') (Some ''Abc123!x'')))
        (Some ''bob'') (Some ''Abc123!x'')))
   \<and> snd (login demo_compare demo_sign 5000
        (snd (register demo_compare demo_hash ''s1'' Map.empty (Some ''bob'') (Some ''Abc123!x'')))
        (Some ''bob'') (Some ''Abc123!x'')) ''bob'' = Some (demo_user 0 None)
   \<and> (failedLoginAttempts (demo_user 0 None) = 0) = (lastFailedLogin (demo_user 0 None) = None)"
proof -
  have r: "reachable demo_compare demo_hash demo_sign demo_verify
     (snd (login demo_compare demo_sign 5000
        (snd (register demo_compare demo_hash ''s1'' Map.empty (Some ''bob'') (Some ''Abc123!x'')))
        (Some ''bob'') (Some ''Abc123!x'')))"
    by (intro reachable.login_attempt reachable.registration reachable.start)
  have v: "validatePassword demo_compare ''Abc123!x'' ''bob'' [] = []"
    by (simp add: eval_defs)
  have g: "snd (register demo_compare demo_hash ''s1'' Map.empty (Some ''bob'') (Some ''Abc123!x''))
             = demo_db"
    by (simp add: v demo_db_def demo_user_def demo_hash_def)
  have l: "snd (login demo_compare demo_sign 5000
        (snd (register demo_compare demo_hash ''s1'' Map.empty (Some ''bob'') (Some ''Abc123!x'')))
        (Some ''bob'') (Some ''Abc123!x'')) ''bob'' = Some (demo_user 0 None)"
    unfolding g demo_login by (simp add: demo_db_def)
  from reachable_counter_invariant [OF r l] r l show ?thesis by simp
qed

subsection \<open>The admin gate\<close>

text \<open>
  C8. For every verified claims object the gate lets the request through exactly when
  the role claim is the string \<^verbatim>\<open>admin\<close>, and answers 403 Forbidden otherwise; a claims
  object without a role claim is answered 403. On a privileged route the handler runs
  only for a verified token whose role is \<^verbatim>\<open>admin\<close>.
\<close>

theorem admin_gate_allows_only_admin_role:
  "(checkAdminRole user = Inr ()) = (user ''role'' = Some (JStr ''admin''))
   \<and> (checkAdminRole user = Inl (Response 403 (ErrorBody ''Forbidden''))) =
       (user ''role'' \<noteq> Some (JStr ''admin''))
   \<and> checkAdminRole (user(''role'' := None)) = Inl (Response 403 (ErrorBody ''Forbidden''))
   \<and> admin_route jwt_verify authHeader handler =
       (case authenticateToken jwt_verify authHeader of
          Inl res \<Rightarrow> res
        | Inr user \<Rightarrow> if user ''role'' = Some (JStr ''admin'') then handler user
                      else Response 403 (ErrorBody ''Forbidden''))"
  by (auto simp: checkAdminRole_def admin_route_def split: sum.splits)

text \<open>The theorem for an admin's claims, for claims without a role, for a role that is
  a list holding \<^verbatim>\<open>admin\<close>, and for a privileged route called with a token of \<^verbatim>\<open>bob\<close>.\<close>

theorem admin_gate_allows_only_admin_role_witness:
  "checkAdminRole [''username'' \<mapsto> JStr ''root'', ''role'' \<mapsto> JStr ''admin''] = Inr ()
   \<and> checkAdminRole [''username'' \<mapsto> JStr ''bob''] = Inl (Response 403 (ErrorBody ''Forbidden''))
   \<and> checkAdminRole [''role'' \<mapsto> JArr [JStr ''admin'']] =
       Inl (Response 403 (ErrorBody ''Forbidden''))
   \<and> admin_route demo_verify (Some ''Bearer jwt.bob'') (\<lambda>user. Response 201 (TextBody ''created''))
       = Response 403 (ErrorBody ''Forbidden'')"
proof -
  have a: "checkAdminRole [''username'' \<mapsto> JStr ''root'', ''role'' \<mapsto> JStr ''admin''] = Inr ()"
    using admin_gate_allows_only_admin_role
            [of "[''username'' \<mapsto> JStr ''root'', ''role'' \<mapsto> JStr ''admin'']"]
    by simp
  have b: "checkAdminRole [''username'' \<mapsto> JStr ''bob''] =
             Inl (Response 403 (ErrorBody ''Forbidden''))"
    using admin_gate_allows_only_admin_role [of "[''username'' \<mapsto> JStr ''bob'']"]
    by simp
  have c: "checkAdminRole [''role'' \<mapsto> JArr [JStr ''admin'']] =
             Inl (Response 403 (ErrorBody ''Forbidden''))"
    using admin_gate_allows_only_admin_role [of "[''role'' \<mapsto> JArr [JStr ''admin'']]"]
    by simp
  have d: "admin_route demo_verify (Some ''Bearer jwt.bob'')
             (\<lambda>user. Response 201 (TextBody ''created'')) =
           Response 403 (ErrorBody ''Forbidden'')"
    using admin_gate_allows_only_admin_role
            [of Map.empty demo_verify "Some ''Bearer jwt.bob''"
                "\<lambda>user. Response 201 (TextBody ''created'')"]
    by (simp add: demo_authenticate)
  from a b c d show ?thesis by simp
qed

subsection \<open>Password change\<close>

text \<open>\<^verbatim>\<open>errors.join(' ')\<close> of a list that is not empty: every violation but the last
  is followed by one space.\<close>

lemma join_space_concat:
  "errors \<noteq> [] \<Longrightarrow>
   join_space errors = concat (map (\<lambda>e. e @ '' '') (butlast errors)) @ last errors"
  by (induction errors rule: join_space.induct) simp_all

text \<open>
  C9, as the code has it. A password change for an existing identity, behind a verified
  token: when the request carries a password that is not empty and that passes
  \<open>validatePassword\<close> against the whole \<^verbatim>\<open>historyPasswords\<close> of the document, the stored
  hash becomes the hash of the new password and the hash that was active is appended to
  the history; when that password does not pass, the answer is 400 with the violations
  joined by single spaces and the collection is as before. A request whose password is
  absent or the empty string is not validated (line 238): the answer is 200
  \<^verbatim>\<open>User updated successfully\<close> and the collection is as before.
\<close>

theorem updateUser_rotates_or_rejects:
  assumes "authenticateToken jwt_verify authHeader = Inr claims"
    and "db uname = Some user"
  shows "updateUser_route jwt_verify compare hash salt db authHeader uname pwd_field =
           (case pwd_field of
              None \<Rightarrow> (Response 200 (MessageBody ''User updated successfully''), db)
            | Some pwd \<Rightarrow>
                if pwd = [] then (Response 200 (MessageBody ''User updated successfully''), db)
                else (let violations = validatePassword compare pwd uname (historyPasswords user)
                      in if violations = []
                         then (Response 200 (MessageBody ''User updated successfully''),
                               db(uname \<mapsto> user\<lparr>historyPasswords :=
                                                   historyPasswords user @ [password user],
                                                 password := hash salt pwd\<rparr>))
                         else (Response 400 (ErrorBody
                                 (concat (map (\<lambda>e. e @ '' '') (butlast violations)) @
                                  last violations)), db)))"
  using assms
  by (simp add: updateUser_route_def updateUser_def Let_def join_space_concat
      split: option.splits)

text \<open>The theorem for \<^verbatim>\<open>bob\<close>: a new password that passes, one that breaks five
  rules, the empty password and no password.\<close>

theorem updateUser_rotates_or_rejects_witness:
  "authenticateToken demo_verify (Some ''Bearer jwt.bob'') = Inr [''username'' \<mapsto> JStr ''bob'']
   \<and> demo_db ''bob'' = Some (demo_user 0 None)
   \<and> updateUser_route demo_verify demo_compare demo_hash ''s2'' demo_db
        (Some ''Bearer jwt.bob'') ''bob'' (Some ''Xyz789?q'') =
       (Response 200 (MessageBody ''User updated successfully''),
        [''bob'' \<mapsto> \<lparr>username = ''bob'', password = ''s2Xyz789?q'',
                      historyPasswords = [''s1Abc123!x''], failedLoginAttempts = 0,
                      lastFailedLogin = None\<rparr>])
   \<and> updateUser_route demo_verify demo_compare demo_hash ''s2'' demo_db
        (Some ''Bearer jwt.bob'') ''bob'' (Some ''bobby'') =
       (Response 400 (ErrorBody
          ''Password must be 8-12 characters long. Password must contain at least one number. Password must contain at least one uppercase letter. Password must contain at least one special character. Password must not contain the username.''),
        demo_db)
   \<and> updateUser_route demo_verify demo_compare demo_hash ''s2'' demo_db
        (Some ''Bearer jwt.bob'') ''bob'' (Some []) =
       (Response 200 (MessageBody ''User updated successfully''), demo_db)
   \<and> updateUser_route demo_verify demo_compare demo_hash ''s2'' demo_db
        (Some ''Bearer jwt.bob'') ''bob'' None =
       (Response 200 (MessageBody ''User updated successfully''), demo_db)"
proof -
  have a: "authenticateToken demo_verify (Some ''Bearer jwt.bob'') =
             Inr [''username'' \<mapsto> JStr ''bob'']"
    by (rule demo_authenticate)
  have b: "demo_db ''bob'' = Some (demo_user 0 None)" by (simp add: demo_db_def)
  have h: "historyPasswords (demo_user 0 None) = []" by (simp add: demo_user_def)
  have v1: "validatePassword demo_compare ''Xyz789?q'' ''bob'' [] = []"
    by (simp add: eval_defs)
  have v2: "validatePassword demo_compare ''bobby'' ''bob'' [] =
              [err_length, err_number, err_uppercase, err_special, err_username]"
    by (simp add: eval_defs)
  note t = updateUser_rotates_or_rejects
            [where jwt_verify = demo_verify and authHeader = "Some ''Bearer jwt.bob''"
               and db = demo_db and uname = "''bob''" and user = "demo_user 0 None"
               and compare = demo_compare and hash = demo_hash and salt = "''s2''", OF a b]
  have ok: "updateUser_route demo_verify demo_compare demo_hash ''s2'' demo_db
        (Some ''Bearer jwt.bob'') ''bob'' (Some ''Xyz789?q'') =
       (Response 200 (MessageBody ''User updated successfully''),
        [''bob'' \<mapsto> \<lparr>username = ''bob'', password = ''s2Xyz789?q'',
                      historyPasswords = [''s1Abc123!x''], failedLoginAttempts = 0,
                      lastFailedLogin = None\<rparr>])"
  proof -
    have "updateUser_route demo_verify demo_compare demo_hash ''s2'' demo_db
            (Some ''Bearer jwt.bob'') ''bob'' (Some ''Xyz789?q'') =
          (Response 200 (MessageBody ''User updated successfully''),
           demo_db(''bob'' \<mapsto> demo_user 0 None
             \<lparr>historyPasswords := historyPasswords (demo_user 0 None) @
                                      [password (demo_user 0 None)],
              password := demo_hash ''s2'' ''Xyz789?q''\<rparr>))"
      using t [of "Some ''Xyz789?q''"] by (simp add: h v1)
    then show ?thesis by (simp add: demo_db_def demo_user_def demo_hash_def)
  qed
  have bad: "updateUser_route demo_verify demo_compare demo_hash ''s2'' demo_db
        (Some ''Bearer jwt.bob'') ''bob'' (Some ''bobby'') =
       (Response 400 (ErrorBody
          ''Password must be 8-12 characters long. Password must contain at least one number. Password must contain at least one uppercase letter. Password must contain at least one special character. Password must not contain the username.''),
        demo_db)"
  proof -
    have "updateUser_route demo_verify demo_compare demo_hash ''s2'' demo_db
            (Some ''Bearer jwt.bob'') ''bob'' (Some ''bobby'') =
          (Response 400 (ErrorBody
             (concat (map (\<lambda>e. e @ '' '')
                (butlast [err_length, err_number, err_uppercase, err_special, err_username])) @
              last [err_length, err_number, err_uppercase, err_special, err_username])),
           demo_db)"
      using t [of "Some ''bobby''"] by (simp add: h v2)
    then show ?thesis by (simp add: err_defs)
  qed
  have e: "updateUser_route demo_verify demo_compare demo_hash ''s2'' demo_db
        (Some ''Bearer jwt.bob'') ''bob'' (Some []) =
       (Response 200 (MessageBody ''User updated successfully''), demo_db)"
    using t [of "Some []"] by simp
  have n: "updateUser_route demo_verify demo_compare demo_hash ''s2'' demo_db
        (Some ''Bearer jwt.bob'') ''bob'' None =
       (Response 200 (MessageBody ''User updated successfully''), demo_db)"
    using t [of None] by simp
  from a b ok bad e n show ?thesis by simp
qed

text \<open>
  C9 as the specification words it ("if validation fails, the joined violation list is
  returned")
  fails for the request \<^verbatim>\<open>{password: ''}\<close>: \<open>validatePassword\<close> gives five violations
  for the empty password, yet the route answers 200 \<^verbatim>\<open>User updated successfully\<close>,
  the guard of line 238 skipping the validation.
\<close>

theorem updateUser_empty_password_counterexample:
  "authenticateToken demo_verify (Some ''Bearer jwt.bob'') = Inr [''username'' \<mapsto> JStr ''bob'']
   \<and> demo_db ''bob'' = Some (demo_user 0 None)
   \<and> validatePassword demo_compare [] ''bob'' (historyPasswords (demo_user 0 None)) =
       [err_length, err_number, err_uppercase, err_lowercase, err_special]
   \<and> updateUser_route demo_verify demo_compare demo_hash ''s2'' demo_db
        (Some ''Bearer jwt.bob'') ''bob'' (Some []) =
       (Response 200 (MessageBody ''User updated successfully''), demo_db)
   \<and> updateUser_route demo_verify demo_compare demo_hash ''s2'' demo_db
        (Some ''Bearer jwt.bob'') ''bob'' (Some []) \<noteq>
       (Response 400 (ErrorBody (join_space
          (validatePassword demo_compare [] ''bob'' (historyPasswords (demo_user 0 None))))),
        demo_db)"
proof -
  have v: "validatePassword demo_compare [] ''bob'' (historyPasswords (demo_user 0 None)) =
             [err_length, err_number, err_uppercase, err_lowercase, err_special]"
    by (simp add: eval_defs demo_user_def)
  have r: "updateUser_route demo_verify demo_compare demo_hash ''s2'' demo_db
        (Some ''Bearer jwt.bob'') ''bob'' (Some []) =
       (Response 200 (MessageBody ''User updated successfully''), demo_db)"
    by (simp add: updateUser_route_def updateUser_def demo_authenticate demo_db_def)
  have b: "demo_db ''bob'' = Some (demo_user 0 None)" by (simp add: demo_db_def)
  show ?thesis unfolding r using demo_authenticate b v by simp
qed

subsection \<open>Tokens of the login route at the admin gate\<close>

text \<open>The stand-in for \<^verbatim>\<open>jsonwebtoken\<close> meets what the next theorem asks of the library.\<close>

lemma demo_verify_role:
  "\<forall>payload c. demo_verify (demo_sign payload) = Some c \<longrightarrow> c ''role'' = payload ''role''"
  by (auto simp: demo_verify_def demo_sign_def split: option.splits json.splits if_splits)

lemma demo_sign_nonempty: "\<forall>payload. demo_sign payload \<noteq> []"
  by (auto simp: demo_sign_def split: option.splits json.splits)

text \<open>
  C10. The payload the login route signs holds the username and nothing else, so no
  role claim. Of \<^verbatim>\<open>jsonwebtoken\<close> it is assumed that a token is not the empty string and
  that verifying a signed token gives back the role claim of the signed payload (the
  library adds \<^verbatim>\<open>iat\<close> and \<^verbatim>\<open>exp\<close> only). Then a request that presents a token of the login
  route on a privileged route, whatever its handler, is answered 403: by the admin gate
  with the body \<^verbatim>\<open>{error: 'Forbidden'}\<close> when the token verifies, by the token check
  when it does not.
\<close>

theorem login_token_never_passes_admin_gate:
  assumes lib_role: "\<forall>payload c. jwt_verify (jwt_sign payload) = Some c \<longrightarrow>
                       c ''role'' = payload ''role''"
    and lib_nonempty: "\<forall>payload. jwt_sign payload \<noteq> []"
    and issued: "fst (login compare jwt_sign now db uname_field pwd_field) =
                   Response st (TokenBody token)"
    and presented: "bearer_token authHeader = Some token"
  shows "(\<exists>uname user. uname_field = Some uname \<and> db uname = Some user \<and>
            token = jwt_sign [''username'' \<mapsto> JStr (username user)])
         \<and> admin_route jwt_verify authHeader handler =
             (if jwt_verify token = None then Response 403 StatusText
              else Response 403 (ErrorBody ''Forbidden''))
         \<and> status (admin_route jwt_verify authHeader handler) = 403"
proof -
  from login_token_payload [OF issued] obtain uname user where
    p: "uname_field = Some uname" "db uname = Some user"
       "token = jwt_sign [''username'' \<mapsto> JStr (username user)]"
    by blast
  have ne: "token \<noteq> []" using p(3) lib_nonempty by simp
  have r: "admin_route jwt_verify authHeader handler =
             (if jwt_verify token = None then Response 403 StatusText
              else Response 403 (ErrorBody ''Forbidden''))"
  proof (cases "jwt_verify token")
    case None
    with presented ne show ?thesis
      by (simp add: admin_route_def authenticateToken_def)
  next
    case (Some c)
    with lib_role [rule_format, of "[''username'' \<mapsto> JStr (username user)]" c] p(3)
    have "c ''role'' = None" by simp
    with Some presented ne show ?thesis
      by (simp add: admin_route_def authenticateToken_def checkAdminRole_def)
  qed
  from p r show ?thesis by auto
qed

text \<open>The theorem for the token \<^verbatim>\<open>bob\<close> gets from a login, presented on the route that
  deletes a question.\<close>

theorem login_token_never_passes_admin_gate_witness:
  "fst (login demo_compare demo_sign 5000 demo_db (Some ''bob'') (Some ''Abc123!x'')) =
     Response 200 (TokenBody ''jwt.bob'')
   \<and> bearer_token (Some ''Bearer jwt.bob'') = Some ''jwt.bob''
   \<and> ''jwt.bob'' = demo_sign [''username'' \<mapsto> JStr ''bob'']
   \<and> demo_verify ''jwt.bob'' = Some [''username'' \<mapsto> JStr ''bob'']
   \<and> admin_route demo_verify (Some ''Bearer jwt.bob'')
        (\<lambda>user. Response 200 (MessageBody ''Question deleted successfully'')) =
       Response 403 (ErrorBody ''Forbidden'')"
proof -
  have i: "fst (login demo_compare demo_sign 5000 demo_db (Some ''bob'') (Some ''Abc123!x'')) =
             Response 200 (TokenBody ''jwt.bob'')"
    unfolding demo_login by simp
  have v: "demo_verify ''jwt.bob'' = Some [''username'' \<mapsto> JStr ''bob'']"
    by (simp add: demo_verify_def)
  from login_token_never_passes_admin_gate
         [where jwt_verify = demo_verify and jwt_sign = demo_sign and compare = demo_compare
            and now = 5000 and db = demo_db and uname_field = "Some ''bob''"
            and pwd_field = "Some ''Abc123!x''" and st = 200 and token = "''jwt.bob''"
            and authHeader = "Some ''Bearer jwt.bob''"
            and handler = "\<lambda>user. Response 200 (MessageBody ''Question deleted successfully'')",
          OF demo_verify_role demo_sign_nonempty i demo_bearer]
       i v
  show ?thesis by (simp add: demo_bearer demo_sign_def)
qed

end
